theory Spec2Isabelle
  imports Main "HOL-Library.Word" "HOL-Library.Finite_Map" "HOL-Library.Char_ord"
    "HOL-Library.List_Lexorder"
begin

section \<open>Event-sourced multi-currency ledger: the data model\<close>

text \<open>
  The Go sources embedded here are \<^verbatim>\<open>domain/account.go\<close>, \<^verbatim>\<open>domain/money.go\<close>,
  \<^verbatim>\<open>domain/snapshot.go\<close>, \<^verbatim>\<open>events/events.go\<close>, the event structs of package
  \<^verbatim>\<open>events\<close>, \<^verbatim>\<open>store/eventstore.go\<close>, \<^verbatim>\<open>store/snapshotstore.go\<close> and the query
  \<^verbatim>\<open>GetTransactionHistory\<close> with \<^verbatim>\<open>loadAccount\<close> of \<^verbatim>\<open>app/service.go\<close>.

  \<^item> Go's \<^verbatim>\<open>int\<close> is the 64-bit machine integer: \<open>+\<close> wraps, and the signed
    comparisons of the source are written on \<open>sint\<close>.
  \<^item> \<^verbatim>\<open>decimal.Decimal\<close> (shopspring) is an arbitrary-precision decimal whose
    \<^verbatim>\<open>Add\<close>, \<^verbatim>\<open>Sub\<close> and \<^verbatim>\<open>Mul\<close> are exact and whose comparisons are by value; it is
    represented by the rational number it denotes.
  \<^item> \<^verbatim>\<open>shared.Currency\<close> and \<^verbatim>\<open>events.EventType\<close> are Go string types.
  \<^item> \<^verbatim>\<open>uuid.New()\<close> and \<^verbatim>\<open>time.Now()\<close> are inputs of the environment: a handler
    takes the identifier and the instant they return in that call as its first two
    arguments.
  \<^item> The text of log lines and of error messages is left out; an error is the kind of
    failure the source returns.
\<close>

type_synonym go_int = "64 word"
type_synonym Decimal = rat
type_synonym Currency = string
type_synonym EventType = string
type_synonym UUID = "128 word"
type_synonym Time = nat

definition IsNegative :: "Decimal \<Rightarrow> bool" where
  "IsNegative d = (d < 0)"

definition IsPositive :: "Decimal \<Rightarrow> bool" where
  "IsPositive d = (0 < d)"

datatype error =
    DomainError
  | ErrInsufficientFunds
  | ErrAccountExists
  | ErrAccountNotFound
  | ErrCurrencyMismatch
  | ErrVersionMismatch
  | ErrInvariantViolation
  | ErrUnknownEventType
  | ErrInternalApply error
  | ErrReconstruction error
  | ErrLoad error
  | ErrOptimisticLock
  | ErrSequence
  | ErrAggregateIDMismatch
  | ErrUnmarshal
  | ErrNilSnapshot
  | PanicSliceBounds

subsection \<open>Snapshots and their serialized state\<close>

text \<open>
  \<^verbatim>\<open>State\<close> holds the JSON document that \<^verbatim>\<open>json.Marshal\<close> writes and \<^verbatim>\<open>json.Unmarshal\<close>
  reads, as the tree of its values: the bytes are the printed form of this tree, and a
  \<^verbatim>\<open>Decimal\<close> is printed as the exact digits of its value, in quotes. Object keys are
  those \<^verbatim>\<open>Marshal\<close> writes from the struct tags (\<^verbatim>\<open>id\<close>, \<^verbatim>\<open>balances\<close>, \<^verbatim>\<open>version\<close>); the
  unexported field \<^verbatim>\<open>changes\<close> is not written. \<^verbatim>\<open>Marshal\<close> writes the keys of a map in
  sorted order.
\<close>

datatype json =
    JNull
  | JNumber int
  | JString string
  | JDecimal Decimal
  | JObject "(string \<times> json) list"

record Snapshot =
  AggregateID :: string
  Version :: go_int
  State :: json
  Timestamp :: Time

subsection \<open>Package shared and package events\<close>

definition USD :: Currency where "USD = ''USD''"
definition EUR :: Currency where "EUR = ''EUR''"
definition GBP :: Currency where "GBP = ''GBP''"

datatype Balance = Balance (Currency: Currency) (Amount: Decimal)

record BaseEvent =
  EventID :: UUID
  AggregateID :: string
  Version :: go_int
  Timestamp :: Time
  Type :: EventType

definition AccountCreatedType :: EventType where "AccountCreatedType = ''AccountCreated''"
definition DepositMadeType :: EventType where "DepositMadeType = ''DepositMade''"
definition WithdrawalMadeType :: EventType where "WithdrawalMadeType = ''WithdrawalMade''"
definition MoneyTransferredType :: EventType where "MoneyTransferredType = ''MoneyTransferred''"
definition CurrencyConvertedType :: EventType where "CurrencyConvertedType = ''CurrencyConverted''"

definition NewBaseEvent :: "UUID \<Rightarrow> Time \<Rightarrow> string \<Rightarrow> go_int \<Rightarrow> EventType \<Rightarrow> BaseEvent" where
  "NewBaseEvent eid now aggregateID version eventType =
     \<lparr>EventID = eid, AggregateID = aggregateID, Version = version, Timestamp = now,
      Type = eventType\<rparr>"

text \<open>
  The event structs, each embedding \<^verbatim>\<open>BaseEvent\<close>; the selector \<open>GetBase\<close> is the method
  of the \<^verbatim>\<open>Event\<close> interface. \<^verbatim>\<open>MoneyTransferredEvent\<close> is the declaration that carries
  \<^verbatim>\<open>TransferID\<close> and \<^verbatim>\<open>SourceAccountID\<close>; a struct literal that does not name them
  leaves them at Go's zero value, the empty string.
\<close>

datatype Event =
    AccountCreatedEvent (GetBase: BaseEvent) (InitialBalances: "Balance list")
  | DepositMadeEvent (GetBase: BaseEvent) (Amount: Decimal) (Currency: Currency)
  | WithdrawalMadeEvent (GetBase: BaseEvent) (Amount: Decimal) (Currency: Currency)
  | MoneyTransferredEvent (GetBase: BaseEvent) (TransferID: string)
      (SourceAccountID: string) (TargetAccountID: string)
      (DebitedAmount: Decimal) (DebitedCurrency: Currency)
      (CreditedAmount: Decimal) (CreditedCurrency: Currency) (ExchangeRate: Decimal)
  | CurrencyConvertedEvent (GetBase: BaseEvent) (FromAmount: Decimal) (FromCurrency: Currency)
      (ToAmount: Decimal) (ToCurrency: Currency) (ExchangeRate: Decimal)
  | ExchangeRateUpdatedEvent (GetBase: BaseEvent) (CurrencyPair: string)
      (ExchangeRate: Decimal) (PreviousExchangeRate: Decimal)

subsection \<open>Package domain: Money\<close>

datatype Money = NewMoney (MoneyAmount: Decimal) (MoneyCurrency: Currency)

definition GreaterThanOrEqual :: "Money \<Rightarrow> Money \<Rightarrow> bool \<times> error option" where
  "GreaterThanOrEqual m other =
     (if MoneyCurrency m \<noteq> MoneyCurrency other then (False, Some ErrCurrencyMismatch)
      else (MoneyAmount other \<le> MoneyAmount m, None))"

subsection \<open>Package domain: the Account aggregate\<close>

text \<open>
  \<^verbatim>\<open>Balances\<close> is a Go map, a finite map here. Every Account the package hands out
  (\<^verbatim>\<open>NewAccount\<close>, \<^verbatim>\<open>ApplySnapshot\<close>) has an allocated map, so the nil map is not a
  value of the field.
\<close>

record Account =
  ID :: string
  Balances :: "(Currency, Decimal) fmap"
  Version :: go_int
  changes :: "Event list"

definition NewAccount :: "string \<Rightarrow> Account" where
  "NewAccount id' = \<lparr>ID = id', Balances = fmempty, Version = 0, changes = []\<rparr>"

definition GetUncommitedChanges :: "Account \<Rightarrow> Event list \<times> Account" where
  "GetUncommitedChanges a = (changes a, a\<lparr>changes := []\<rparr>)"

definition getBalance :: "Account \<Rightarrow> Currency \<Rightarrow> Decimal" where
  "getBalance a currency =
     (case fmlookup (Balances a) currency of None \<Rightarrow> 0 | Some balance \<Rightarrow> balance)"

definition setBalance :: "Currency \<Rightarrow> Decimal \<Rightarrow> Account \<Rightarrow> Account" where
  "setBalance currency amount a = a\<lparr>Balances := fmupd currency amount (Balances a)\<rparr>"

text \<open>The loop of the \<^verbatim>\<open>AccountCreatedEvent\<close> case: a later entry overwrites an earlier one.\<close>

fun installBalances :: "Balance list \<Rightarrow> (Currency, Decimal) fmap \<Rightarrow> (Currency, Decimal) fmap" where
  "installBalances [] m = m"
| "installBalances (balance # rest) m =
     installBalances rest (fmupd (Balance.Currency balance) (Balance.Amount balance) m)"

text \<open>
  The type switch of \<^verbatim>\<open>ApplyEvent\<close>. The result is the returned error and the account as
  the call leaves it.
\<close>

fun applySwitch :: "Account \<Rightarrow> Event \<Rightarrow> error option \<times> Account" where
  "applySwitch a (AccountCreatedEvent base initialBalances) =
     (None, a\<lparr>ID := AggregateID base, Balances := installBalances initialBalances fmempty\<rparr>)"
| "applySwitch a (DepositMadeEvent base amount currency) =
     (let currentBalance = getBalance a currency
      in (None, setBalance currency (currentBalance + amount) a))"
| "applySwitch a (WithdrawalMadeEvent base amount currency) =
     (let currentBalance = getBalance a currency;
          newBalance = currentBalance - amount
      in if IsNegative newBalance then (Some ErrInvariantViolation, a)
         else (None, setBalance currency newBalance a))"
| "applySwitch a (CurrencyConvertedEvent base fromAmount fromCurrency toAmount toCurrency rate) =
     (let currentFrom = getBalance a fromCurrency;
          newFrom = currentFrom - fromAmount
      in if IsNegative newFrom then (Some ErrInvariantViolation, a)
         else (let a1 = setBalance fromCurrency newFrom a;
                   currentTo = getBalance a1 toCurrency
               in (None, setBalance toCurrency (currentTo + toAmount) a1)))"
| "applySwitch a (MoneyTransferredEvent base transferID sourceAccountID targetAccountID
       debitedAmount debitedCurrency creditedAmount creditedCurrency rate) =
     (let currentBalance = getBalance a debitedCurrency;
          newBalance = currentBalance - debitedAmount
      in if IsNegative newBalance then (Some ErrInvariantViolation, a)
         else (None, setBalance debitedCurrency newBalance a))"
| "applySwitch a (ExchangeRateUpdatedEvent base currencyPair rate previousRate) =
     (Some ErrUnknownEventType, a)"

definition ApplyEvent :: "Account \<Rightarrow> Event \<Rightarrow> error option \<times> Account" where
  "ApplyEvent a event =
     (let base = GetBase event
      in if BaseEvent.Version base \<noteq> Account.Version a + 1 then (Some ErrVersionMismatch, a)
         else (case applySwitch a event of
                 (Some err, a') \<Rightarrow> (Some err, a')
               | (None, a') \<Rightarrow> (None, a'\<lparr>Version := BaseEvent.Version base\<rparr>)))"

fun ApplyEvents :: "Account \<Rightarrow> Event list \<Rightarrow> error option \<times> Account" where
  "ApplyEvents a [] = (None, a)"
| "ApplyEvents a (event # history) =
     (case ApplyEvent a event of
        (Some err, a') \<Rightarrow> (Some (ErrReconstruction err), a')
      | (None, a') \<Rightarrow> ApplyEvents a' history)"

definition handleChange :: "Account \<Rightarrow> Event \<Rightarrow> error option \<times> Account" where
  "handleChange a event =
     (case ApplyEvent a event of
        (Some err, a') \<Rightarrow> (Some (ErrInternalApply err), a')
      | (None, a') \<Rightarrow> (None, a'\<lparr>changes := changes a' @ [event]\<rparr>))"

subsection \<open>Command handlers\<close>

text \<open>
  \<^verbatim>\<open>HandleCreateAccount\<close> ranges over the map \<^verbatim>\<open>initialBalances\<close>; the argument here is
  the list of the map's entries in the order that loop visits them.
\<close>

fun collectBalances :: "(Currency \<times> Decimal) list \<Rightarrow> Balance list \<Rightarrow> error + Balance list" where
  "collectBalances [] balanceEntries = Inr balanceEntries"
| "collectBalances ((cur, amt) # rest) balanceEntries =
     (if IsNegative amt then Inl DomainError
      else collectBalances rest (balanceEntries @ [Balance cur amt]))"

definition HandleCreateAccount ::
  "UUID \<Rightarrow> Time \<Rightarrow> Account \<Rightarrow> string \<Rightarrow> (Currency \<times> Decimal) list \<Rightarrow> error option \<times> Account" where
  "HandleCreateAccount eid now a id' initialBalances =
     (if 0 < sint (Account.Version a) then (Some ErrAccountExists, a)
      else if id' = [] then (Some DomainError, a)
      else (case collectBalances initialBalances [] of
              Inl err \<Rightarrow> (Some err, a)
            | Inr balanceEntries \<Rightarrow>
                handleChange a
                  (AccountCreatedEvent
                     (NewBaseEvent eid now id' (Account.Version a + 1) AccountCreatedType)
                     balanceEntries)))"

definition HandleDeposit ::
  "UUID \<Rightarrow> Time \<Rightarrow> Account \<Rightarrow> Decimal \<Rightarrow> Currency \<Rightarrow> error option \<times> Account" where
  "HandleDeposit eid now a amount currency =
     (if ID a = [] \<or> Account.Version a = 0 then (Some DomainError, a)
      else if \<not> IsPositive amount then (Some DomainError, a)
      else handleChange a
             (DepositMadeEvent
                (NewBaseEvent eid now (ID a) (Account.Version a + 1) DepositMadeType)
                amount currency))"

definition HandleWithdraw ::
  "UUID \<Rightarrow> Time \<Rightarrow> Account \<Rightarrow> Decimal \<Rightarrow> Currency \<Rightarrow> error option \<times> Account" where
  "HandleWithdraw eid now a amount currency =
     (if ID a = [] \<or> Account.Version a = 0 then (Some DomainError, a)
      else if \<not> IsPositive amount then (Some DomainError, a)
      else (let currentBalance = getBalance a currency;
                required = NewMoney amount currency;
                available = NewMoney currentBalance currency;
                sufficient = fst (GreaterThanOrEqual available required)
            in if \<not> sufficient then (Some ErrInsufficientFunds, a)
               else handleChange a
                      (WithdrawalMadeEvent
                         (NewBaseEvent eid now (ID a) (Account.Version a + 1) WithdrawalMadeType)
                         amount currency)))"

definition HandleConvertCurrency ::
  "UUID \<Rightarrow> Time \<Rightarrow> Account \<Rightarrow> Decimal \<Rightarrow> Currency \<Rightarrow> Currency \<Rightarrow> Decimal
     \<Rightarrow> error option \<times> Account" where
  "HandleConvertCurrency eid now a fromAmount fromCurrency toCurrency exchangeRate =
     (if ID a = [] \<or> Account.Version a = 0 then (Some DomainError, a)
      else if \<not> IsPositive fromAmount then (Some DomainError, a)
      else if fromCurrency = toCurrency then (Some DomainError, a)
      else if \<not> IsPositive exchangeRate then (Some DomainError, a)
      else (let currentFromBalance = getBalance a fromCurrency;
                required = NewMoney fromAmount fromCurrency;
                available = NewMoney currentFromBalance fromCurrency;
                sufficient = fst (GreaterThanOrEqual available required)
            in if \<not> sufficient then (Some ErrInsufficientFunds, a)
               else (let toAmount = fromAmount * exchangeRate
                     in handleChange a
                          (CurrencyConvertedEvent
                             (NewBaseEvent eid now (ID a) (Account.Version a + 1)
                                CurrencyConvertedType)
                             fromAmount fromCurrency toAmount toCurrency exchangeRate))))"

definition HandleTransferMoney ::
  "UUID \<Rightarrow> Time \<Rightarrow> Account \<Rightarrow> string \<Rightarrow> Decimal \<Rightarrow> Currency \<Rightarrow> Decimal \<Rightarrow> Currency \<Rightarrow> Decimal
     \<Rightarrow> error option \<times> Account" where
  "HandleTransferMoney eid now a targetAccountID debitAmount debitCurrency creditAmount
       creditCurrency rate =
     (if ID a = [] \<or> Account.Version a = 0 then (Some DomainError, a)
      else if \<not> IsPositive debitAmount then (Some DomainError, a)
      else if targetAccountID = [] then (Some DomainError, a)
      else if targetAccountID = ID a then (Some DomainError, a)
      else (let currentBalance = getBalance a debitCurrency;
                required = NewMoney debitAmount debitCurrency;
                available = NewMoney currentBalance debitCurrency;
                sufficient = fst (GreaterThanOrEqual available required)
            in if \<not> sufficient then (Some ErrInsufficientFunds, a)
               else (let emit = (\<lambda>rate'. handleChange a
                          (MoneyTransferredEvent
                             (NewBaseEvent eid now (ID a) (Account.Version a + 1)
                                MoneyTransferredType)
                             [] [] targetAccountID debitAmount debitCurrency creditAmount
                             creditCurrency rate'))
                     in if debitCurrency \<noteq> creditCurrency then
                          (if \<not> IsPositive rate then (Some DomainError, a) else emit rate)
                        else
                          (if creditAmount \<noteq> debitAmount then (Some DomainError, a)
                           else emit (if rate \<noteq> 1 then 1 else rate)))))"

subsection \<open>Command sequences\<close>

text \<open>
  A command names one call of a handler of \<^verbatim>\<open>Account\<close> with its arguments; \<open>run\<close> issues
  the calls one after the other on the same aggregate and stops at the first one that
  returns an error. Each call comes with the identifier and instant its event receives.
\<close>

datatype Command =
    CreateAccount string "(Currency \<times> Decimal) list"
  | Deposit Decimal Currency
  | Withdraw Decimal Currency
  | ConvertCurrency Decimal Currency Currency Decimal
  | TransferMoney string Decimal Currency Decimal Currency Decimal

fun execute :: "UUID \<Rightarrow> Time \<Rightarrow> Account \<Rightarrow> Command \<Rightarrow> error option \<times> Account" where
  "execute eid now a (CreateAccount id' initialBalances) =
     HandleCreateAccount eid now a id' initialBalances"
| "execute eid now a (Deposit amount currency) = HandleDeposit eid now a amount currency"
| "execute eid now a (Withdraw amount currency) = HandleWithdraw eid now a amount currency"
| "execute eid now a (ConvertCurrency fromAmount fromCurrency toCurrency exchangeRate) =
     HandleConvertCurrency eid now a fromAmount fromCurrency toCurrency exchangeRate"
| "execute eid now a (TransferMoney target debitAmount debitCurrency creditAmount creditCurrency rate) =
     HandleTransferMoney eid now a target debitAmount debitCurrency creditAmount creditCurrency rate"

fun run :: "Account \<Rightarrow> (UUID \<times> Time \<times> Command) list \<Rightarrow> error option \<times> Account" where
  "run a [] = (None, a)"
| "run a ((eid, now, cmd) # rest) =
     (case execute eid now a cmd of
        (Some err, a') \<Rightarrow> (Some err, a')
      | (None, a') \<Rightarrow> run a' rest)"

definition balances_nonneg :: "Account \<Rightarrow> bool" where
  "balances_nonneg a = (\<forall>currency amount. fmlookup (Balances a) currency = Some amount \<longrightarrow> 0 \<le> amount)"

text \<open>The events whose credited amounts are not negative: what the handlers emit.\<close>

definition credit_nonneg :: "Event \<Rightarrow> bool" where
  "credit_nonneg event =
     (case event of
        AccountCreatedEvent base bs \<Rightarrow> \<forall>b \<in> set bs. 0 \<le> Balance.Amount b
      | DepositMadeEvent base amount currency \<Rightarrow> 0 \<le> amount
      | CurrencyConvertedEvent base fa fc ta tc r \<Rightarrow> 0 \<le> ta
      | _ \<Rightarrow> True)"

subsection \<open>Preconditions of the commands, as the specification lists them\<close>

text \<open>
  These predicates follow the words of the specification's section on the public
  contract of the aggregate, not the source; they are what the handlers are compared with.
  \<open>balanceOf\<close> is the held amount, zero for a currency that is not held.
\<close>

definition balanceOf :: "Account \<Rightarrow> Currency \<Rightarrow> Decimal" where
  "balanceOf a currency = (case fmlookup (Balances a) currency of None \<Rightarrow> 0 | Some v \<Rightarrow> v)"

definition spec_pre_create :: "Account \<Rightarrow> string \<Rightarrow> (Currency \<times> Decimal) list \<Rightarrow> bool" where
  "spec_pre_create a id' initialBalances =
     (Account.Version a = 0 \<and> id' \<noteq> [] \<and> list_all (\<lambda>(cur, amt). 0 \<le> amt) initialBalances)"

definition spec_pre_deposit :: "Account \<Rightarrow> Decimal \<Rightarrow> bool" where
  "spec_pre_deposit a amount = (1 \<le> sint (Account.Version a) \<and> 0 < amount)"

definition spec_pre_withdraw :: "Account \<Rightarrow> Decimal \<Rightarrow> Currency \<Rightarrow> bool" where
  "spec_pre_withdraw a amount currency =
     (1 \<le> sint (Account.Version a) \<and> 0 < amount \<and> amount \<le> balanceOf a currency)"

definition spec_pre_convert :: "Account \<Rightarrow> Decimal \<Rightarrow> Currency \<Rightarrow> Currency \<Rightarrow> Decimal \<Rightarrow> bool" where
  "spec_pre_convert a fromAmount fromCurrency toCurrency exchangeRate =
     (1 \<le> sint (Account.Version a) \<and> 0 < fromAmount \<and> fromCurrency \<noteq> toCurrency
      \<and> 0 < exchangeRate \<and> fromAmount \<le> balanceOf a fromCurrency)"

text \<open>
  The transfer's preconditions: the part common to both kinds of transfer, then the whole
  as the specification has it (same currency: equal amounts and rate 1), then the same
  without its clause on the rate of a same-currency transfer.
\<close>

definition spec_pre_transfer_common ::
  "Account \<Rightarrow> string \<Rightarrow> Decimal \<Rightarrow> Currency \<Rightarrow> bool" where
  "spec_pre_transfer_common a target debitAmount debitCurrency =
     (1 \<le> sint (Account.Version a) \<and> 0 < debitAmount \<and> target \<noteq> [] \<and> target \<noteq> ID a
      \<and> debitAmount \<le> balanceOf a debitCurrency)"

definition spec_pre_transfer ::
  "Account \<Rightarrow> string \<Rightarrow> Decimal \<Rightarrow> Currency \<Rightarrow> Decimal \<Rightarrow> Currency \<Rightarrow> Decimal \<Rightarrow> bool" where
  "spec_pre_transfer a target debitAmount debitCurrency creditAmount creditCurrency rate =
     (spec_pre_transfer_common a target debitAmount debitCurrency
      \<and> (if debitCurrency = creditCurrency then creditAmount = debitAmount \<and> rate = 1
         else 0 < rate))"

definition spec_pre_transfer_any_rate ::
  "Account \<Rightarrow> string \<Rightarrow> Decimal \<Rightarrow> Currency \<Rightarrow> Decimal \<Rightarrow> Currency \<Rightarrow> Decimal \<Rightarrow> bool" where
  "spec_pre_transfer_any_rate a target debitAmount debitCurrency creditAmount creditCurrency rate =
     (spec_pre_transfer_common a target debitAmount debitCurrency
      \<and> (if debitCurrency = creditCurrency then creditAmount = debitAmount
         else 0 < rate))"

text \<open>
  A call that is turned down: it returns an error, and the identity, balances, version and
  the events a later drain returns are those before the call.
\<close>

definition rejected :: "error option \<times> Account \<Rightarrow> Account \<Rightarrow> bool" where
  "rejected result a =
     (fst result \<noteq> None \<and> ID (snd result) = ID a \<and> Balances (snd result) = Balances a
      \<and> Account.Version (snd result) = Account.Version a
      \<and> fst (GetUncommitedChanges (snd result)) = fst (GetUncommitedChanges a))"

section \<open>Package store: the in-memory event store\<close>

record InMemoryEventStore =
  streams :: "string \<rightharpoonup> Event list"

definition NewInMemoryEventStore :: InMemoryEventStore where
  "NewInMemoryEventStore = \<lparr>streams = Map.empty\<rparr>"

text \<open>The version \<^verbatim>\<open>SaveEvents\<close> reads before it compares: that of the last stored event.\<close>

definition currentVersion :: "InMemoryEventStore \<Rightarrow> string \<Rightarrow> go_int" where
  "currentVersion s aggregateID =
     (case streams s aggregateID of
        None \<Rightarrow> 0
      | Some stream \<Rightarrow> if 0 < length stream then BaseEvent.Version (GetBase (last stream)) else 0)"

text \<open>The validation loop of \<^verbatim>\<open>SaveEvents\<close>; \<open>nextVersion\<close> is its counter.\<close>

fun validateBatch :: "string \<Rightarrow> go_int \<Rightarrow> Event list \<Rightarrow> error option" where
  "validateBatch aggregateID nextVersion [] = None"
| "validateBatch aggregateID nextVersion (event # rest) =
     (let base = GetBase event;
          nextVersion' = nextVersion + 1
      in if BaseEvent.Version base \<noteq> nextVersion' then Some ErrSequence
         else if AggregateID base \<noteq> aggregateID then Some ErrAggregateIDMismatch
         else validateBatch aggregateID nextVersion' rest)"

definition SaveEvents ::
  "InMemoryEventStore \<Rightarrow> string \<Rightarrow> go_int \<Rightarrow> Event list \<Rightarrow> error option \<times> InMemoryEventStore" where
  "SaveEvents s aggregateID expectedVersion newEvents =
     (if length newEvents = 0 then (None, s)
      else if currentVersion s aggregateID \<noteq> expectedVersion then (Some ErrOptimisticLock, s)
      else (case validateBatch aggregateID expectedVersion newEvents of
              Some err \<Rightarrow> (Some err, s)
            | None \<Rightarrow>
                (let stream = (case streams s aggregateID of None \<Rightarrow> [] | Some st \<Rightarrow> st)
                 in (None, s\<lparr>streams := (streams s)(aggregateID \<mapsto> stream @ newEvents)\<rparr>))))"

definition GetEvents :: "InMemoryEventStore \<Rightarrow> string \<Rightarrow> Event list" where
  "GetEvents s aggregateID =
     (case streams s aggregateID of None \<Rightarrow> [] | Some streamData \<Rightarrow> streamData)"

definition GetEventsAfterVersion :: "InMemoryEventStore \<Rightarrow> string \<Rightarrow> go_int \<Rightarrow> Event list" where
  "GetEventsAfterVersion s aggregateID version =
     (case streams s aggregateID of
        None \<Rightarrow> []
      | Some streamData \<Rightarrow>
          dropWhile (\<lambda>event. \<not> sint version < sint (BaseEvent.Version (GetBase event))) streamData)"

text \<open>
  The versions of a stream that only \<^verbatim>\<open>SaveEvents\<close> wrote: \<open>1, 2, \<dots>\<close> up to its length.
\<close>

definition contiguous_from :: "go_int \<Rightarrow> Event list \<Rightarrow> bool" where
  "contiguous_from v events =
     (map (\<lambda>event. BaseEvent.Version (GetBase event)) events
        = map (\<lambda>i. v + of_nat i) [1 ..< Suc (length events)])"

text \<open>A store in which every stream carries the versions \<open>1, 2, \<dots>\<close> in order.\<close>

definition written_by_append :: "InMemoryEventStore \<Rightarrow> bool" where
  "written_by_append s = (\<forall>aggregateID stream. streams s aggregateID = Some stream \<longrightarrow> contiguous_from 0 stream)"

section \<open>Package domain: snapshots\<close>



text \<open>
  The value \<^verbatim>\<open>var account Account\<close> while \<^verbatim>\<open>Unmarshal\<close> fills it: the map may still be
  nil (\<open>None\<close>).
\<close>

record decoded =
  dID :: string
  dBalances :: "(Currency, Decimal) fmap option"
  dVersion :: go_int

definition zeroAccount :: decoded where
  "zeroAccount = \<lparr>dID = [], dBalances = None, dVersion = 0\<rparr>"

fun decodeBalances ::
  "(string \<times> json) list \<Rightarrow> (Currency, Decimal) fmap \<Rightarrow> error + (Currency, Decimal) fmap" where
  "decodeBalances [] m = Inr m"
| "decodeBalances ((k, JDecimal d) # rest) m = decodeBalances rest (fmupd k d m)"
| "decodeBalances ((k, JNull) # rest) m = decodeBalances rest (fmupd k 0 m)"
| "decodeBalances ((k, other) # rest) m = Inl ErrUnmarshal"

fun decodeField :: "string \<times> json \<Rightarrow> decoded \<Rightarrow> error + decoded" where
  "decodeField (k, v) d =
     (if k = ''id'' then
        (case v of JString s \<Rightarrow> Inr (d\<lparr>dID := s\<rparr>) | JNull \<Rightarrow> Inr d | _ \<Rightarrow> Inl ErrUnmarshal)
      else if k = ''balances'' then
        (case v of
           JObject entries \<Rightarrow>
             (case decodeBalances entries (case dBalances d of None \<Rightarrow> fmempty | Some m \<Rightarrow> m) of
                Inl err \<Rightarrow> Inl err
              | Inr m \<Rightarrow> Inr (d\<lparr>dBalances := Some m\<rparr>))
         | JNull \<Rightarrow> Inr (d\<lparr>dBalances := None\<rparr>)
         | _ \<Rightarrow> Inl ErrUnmarshal)
      else if k = ''version'' then
        (case v of
           JNumber n \<Rightarrow>
             (if - (2 ^ 63) \<le> n \<and> n < 2 ^ 63 then Inr (d\<lparr>dVersion := word_of_int n\<rparr>)
              else Inl ErrUnmarshal)
         | JNull \<Rightarrow> Inr d
         | _ \<Rightarrow> Inl ErrUnmarshal)
      else Inr d)"

fun decodeFields :: "(string \<times> json) list \<Rightarrow> decoded \<Rightarrow> error + decoded" where
  "decodeFields [] d = Inr d"
| "decodeFields (field # rest) d =
     (case decodeField field d of Inl err \<Rightarrow> Inl err | Inr d' \<Rightarrow> decodeFields rest d')"

definition unmarshalAccount :: "json \<Rightarrow> error + decoded" where
  "unmarshalAccount state =
     (case state of
        JObject members \<Rightarrow> decodeFields members zeroAccount
      | JNull \<Rightarrow> Inr zeroAccount
      | _ \<Rightarrow> Inl ErrUnmarshal)"

definition ApplySnapshot :: "Snapshot \<Rightarrow> error + Account" where
  "ApplySnapshot snap =
     (case unmarshalAccount (State snap) of
        Inl err \<Rightarrow> Inl err
      | Inr account \<Rightarrow>
          (let account1 =
                 (if dID account \<noteq> Snapshot.AggregateID snap
                     \<or> dVersion account \<noteq> Snapshot.Version snap
                  then account\<lparr>dID := Snapshot.AggregateID snap, dVersion := Snapshot.Version snap\<rparr>
                  else account)
           in Inr \<lparr>ID = dID account1,
                   Balances = (case dBalances account1 of None \<Rightarrow> fmempty | Some m \<Rightarrow> m),
                   Version = dVersion account1,
                   changes = []\<rparr>))"

section \<open>Package store: the in-memory snapshot store\<close>

record InMemorySnapshotStore =
  snapshots :: "string \<rightharpoonup> Snapshot"

definition NewInMemorySnapshotStore :: InMemorySnapshotStore where
  "NewInMemorySnapshotStore = \<lparr>snapshots = Map.empty\<rparr>"

definition SaveSnapshot ::
  "Time \<Rightarrow> InMemorySnapshotStore \<Rightarrow> Snapshot option \<Rightarrow> error option \<times> InMemorySnapshotStore" where
  "SaveSnapshot now s snapshot =
     (case snapshot of
        None \<Rightarrow> (Some ErrNilSnapshot, s)
      | Some snap \<Rightarrow>
          (None, s\<lparr>snapshots :=
                     (snapshots s)(Snapshot.AggregateID snap \<mapsto> snap\<lparr>Snapshot.Timestamp := now\<rparr>)\<rparr>))"

definition GetLatestSnapshot :: "InMemorySnapshotStore \<Rightarrow> string \<Rightarrow> Snapshot option" where
  "GetLatestSnapshot s aggregateID = snapshots s aggregateID"

section \<open>Package app: loading an aggregate and the history query\<close>

record AccountService =
  eventStore :: InMemoryEventStore
  snapshotStore :: InMemorySnapshotStore

record GetHistoryQuery =
  AccountID :: string
  Limit :: go_int
  Skip :: go_int

definition loadAccount :: "AccountService \<Rightarrow> string \<Rightarrow> error + Account" where
  "loadAccount s accountID =
     (let (account, snapshotVersion) =
            (case GetLatestSnapshot (snapshotStore s) accountID of
               Some snapshot \<Rightarrow>
                 (case ApplySnapshot snapshot of
                    Inl err \<Rightarrow> (NewAccount accountID, 0)
                  | Inr acc \<Rightarrow> (acc, Account.Version acc))
             | None \<Rightarrow> (NewAccount accountID, 0));
          eventsToApply = GetEventsAfterVersion (eventStore s) accountID snapshotVersion;
          (err, account') =
            (if 0 < length eventsToApply then ApplyEvents account eventsToApply
             else (None, account))
      in case err of
           Some e \<Rightarrow> Inl (ErrLoad e)
         | None \<Rightarrow> if Account.Version account' = 0 then Inl ErrAccountNotFound else Inr account')"

text \<open>
  The slice expression \<^verbatim>\<open>history[start:end]\<close> of Go: it panics unless
  \<open>0 \<le> start \<le> end \<le> cap(history)\<close>; the slice sliced here is a fresh copy whose capacity
  is its length.
\<close>

definition slice :: "'a list \<Rightarrow> go_int \<Rightarrow> go_int \<Rightarrow> error + 'a list" where
  "slice xs lo hi =
     (if 0 \<le> sint lo \<and> sint lo \<le> sint hi \<and> sint hi \<le> int (length xs)
      then Inr (take (nat (sint hi) - nat (sint lo)) (drop (nat (sint lo)) xs))
      else Inl PanicSliceBounds)"

definition GetTransactionHistory :: "AccountService \<Rightarrow> GetHistoryQuery \<Rightarrow> error + Event list" where
  "GetTransactionHistory s query =
     (let history = GetEvents (eventStore s) (AccountID query)
      in if length history = 0 then
           (case loadAccount s (AccountID query) of
              Inl ErrAccountNotFound \<Rightarrow> Inl ErrAccountNotFound
            | _ \<Rightarrow> Inr [])
         else
           (let totalEvents = (of_nat (length history) :: go_int);
                start = (if sint (Skip query) < 0 then 0 else Skip query)
            in if sint totalEvents \<le> sint start then Inr []
               else (let end0 = start + Limit query;
                         end1 = (if sint (Limit query) \<le> 0 \<or> sint totalEvents < sint end0
                                 then totalEvents else end0)
                     in slice history start end1)))"

text \<open>
  The service after the three commands of \<^verbatim>\<open>TestAccountService_GetTransactionHistory\<close>:
  one account, whose stream holds its creation, a deposit and a withdrawal.
\<close>

definition histService :: AccountService where
  "histService =
     \<lparr>eventStore = \<lparr>streams = [''acc-hist-1'' \<mapsto>
          [AccountCreatedEvent (NewBaseEvent 1 0 ''acc-hist-1'' 1 AccountCreatedType) [Balance USD 10],
           DepositMadeEvent (NewBaseEvent 2 0 ''acc-hist-1'' 2 DepositMadeType) 5 USD,
           WithdrawalMadeEvent (NewBaseEvent 3 0 ''acc-hist-1'' 3 WithdrawalMadeType) 2 USD]]\<rparr>,
       snapshotStore = NewInMemorySnapshotStore\<rparr>"

section \<open>Properties of the event applicator\<close>

lemma installBalances_lookup:
  "fmlookup (installBalances bs m) c =
     (case map_of (rev (map (\<lambda>b. (Balance.Currency b, Balance.Amount b)) bs)) c of
        None \<Rightarrow> fmlookup m c
      | Some v \<Rightarrow> Some v)"
  by (induction bs arbitrary: m) (auto split: option.splits)

lemma ApplyEvent_in_sequence:
  "BaseEvent.Version (GetBase event) = Account.Version a + 1 \<Longrightarrow>
   ApplyEvent a event =
     (case applySwitch a event of
        (Some err, a') \<Rightarrow> (Some err, a')
      | (None, a') \<Rightarrow> (None, a'\<lparr>Version := BaseEvent.Version (GetBase event)\<rparr>))"
  by (simp add: ApplyEvent_def)

lemma ApplyEvent_out_of_sequence:
  "BaseEvent.Version (GetBase event) \<noteq> Account.Version a + 1 \<Longrightarrow>
   ApplyEvent a event = (Some ErrVersionMismatch, a)"
  by (simp add: ApplyEvent_def)

text \<open>
  Claim C10. \<^verbatim>\<open>ApplyEvent\<close> checks neither sign nor validity on the credit side. A
  \<^verbatim>\<open>DepositMadeEvent\<close> whose version is the aggregate's version plus one is applied
  with success and sets the balance of its currency to the held amount plus the event's
  amount, whatever the sign of the amount. An \<^verbatim>\<open>AccountCreatedEvent\<close> in sequence is
  applied with success and installs its initial balances as they are (the last entry of
  a currency is the one kept), negative amounts included.
\<close>

theorem apply_credit_side_unchecked:
  "(BaseEvent.Version base = Account.Version a + 1 \<longrightarrow>
      ApplyEvent a (DepositMadeEvent base amount currency) =
        (None, a\<lparr>Balances := fmupd currency (getBalance a currency + amount) (Balances a),
                  Version := BaseEvent.Version base\<rparr>))
   \<and> (BaseEvent.Version base = Account.Version a + 1 \<longrightarrow>
      ApplyEvent a (AccountCreatedEvent base initialBalances) =
        (None, a\<lparr>ID := BaseEvent.AggregateID base,
                  Balances := installBalances initialBalances fmempty,
                  Version := BaseEvent.Version base\<rparr>)
      \<and> (\<forall>c. fmlookup (installBalances initialBalances fmempty) c =
             map_of (rev (map (\<lambda>b. (Balance.Currency b, Balance.Amount b)) initialBalances)) c))"
  by (simp add: ApplyEvent_in_sequence setBalance_def installBalances_lookup split: option.splits)

theorem apply_credit_side_unchecked_witness:
  "ApplyEvent \<lparr>ID = ''acc'', Balances = fmupd USD 3 fmempty, Version = 1, changes = []\<rparr>
      (DepositMadeEvent (NewBaseEvent 7 0 ''acc'' 2 DepositMadeType) (- 10) USD) =
     (None, \<lparr>ID = ''acc'', Balances = fmupd USD (- 7) (fmupd USD 3 fmempty), Version = 2, changes = []\<rparr>)
   \<and> fst (ApplyEvent (NewAccount ''acc'')
        (AccountCreatedEvent (NewBaseEvent 8 0 ''acc'' 1 AccountCreatedType) [Balance USD (- 5)])) = None
   \<and> fmlookup (Balances (snd (ApplyEvent (NewAccount ''acc'')
        (AccountCreatedEvent (NewBaseEvent 8 0 ''acc'' 1 AccountCreatedType) [Balance USD (- 5)])))) USD
       = Some (- 5)"
  using apply_credit_side_unchecked
      [of "NewBaseEvent 7 0 ''acc'' 2 DepositMadeType"
          "\<lparr>ID = ''acc'', Balances = fmupd USD 3 fmempty, Version = 1, changes = []\<rparr>"
          "- 10" USD "[]"]
    apply_credit_side_unchecked
      [of "NewBaseEvent 8 0 ''acc'' 1 AccountCreatedType" "NewAccount ''acc''" 0 USD
          "[Balance USD (- 5)]"]
  by (simp add: NewBaseEvent_def NewAccount_def getBalance_def USD_def)



section \<open>Transfers, the version gate and conversion\<close>

lemma transfer_applied_as_debit:
  "BaseEvent.Version base = Account.Version a + 1 \<Longrightarrow>
   ApplyEvent a (MoneyTransferredEvent base transferID source target debitedAmount debitedCurrency
       creditedAmount creditedCurrency rate) =
     (if getBalance a debitedCurrency - debitedAmount < 0 then (Some ErrInvariantViolation, a)
      else (None, a\<lparr>Balances := fmupd debitedCurrency (getBalance a debitedCurrency - debitedAmount)
                                     (Balances a),
                     Version := BaseEvent.Version base\<rparr>))"
  by (simp add: ApplyEvent_in_sequence setBalance_def IsNegative_def Let_def)

text \<open>
  Claim C1. The claim: a \<^verbatim>\<open>MoneyTransferredEvent\<close> in sequence debits the debited
  currency when its source is the aggregate, and credits the credited currency by the
  credited amount when its target is the aggregate. The debit half is
  \<open>transfer_applied_as_debit\<close>. The credit half fails: \<^verbatim>\<open>ApplyEvent\<close> debits whoever the
  target is. On the target account of \<^verbatim>\<open>TestAccount_ApplyEvents\<close> (50 EUR, receiving
  25 EUR for 30 USD) it returns the invariant violation and credits nothing, where the
  test expects 75 EUR; on a target holding 50 USD that receives 10 USD it leaves 40 USD.
\<close>

theorem transfer_receive_side_not_credited:
  "ApplyEvent \<lparr>ID = ''acc-other-target'', Balances = fmupd EUR 50 fmempty, Version = 1, changes = []\<rparr>
     (MoneyTransferredEvent (NewBaseEvent 1 0 ''acc-other-target'' 2 MoneyTransferredType)
        ''tf-apply-123'' ''acc-apply'' ''acc-other-target'' 30 USD 25 EUR (83333333 / 100000000))
     = (Some ErrInvariantViolation,
        \<lparr>ID = ''acc-other-target'', Balances = fmupd EUR 50 fmempty, Version = 1, changes = []\<rparr>)
   \<and> ApplyEvent \<lparr>ID = ''acc-target'', Balances = fmupd USD 50 fmempty, Version = 1, changes = []\<rparr>
     (MoneyTransferredEvent (NewBaseEvent 2 0 ''acc-target'' 2 MoneyTransferredType)
        ''transfer-456'' ''acc-source'' ''acc-target'' 10 USD 10 USD 1)
     = (None,
        \<lparr>ID = ''acc-target'', Balances = fmupd USD 40 (fmupd USD 50 fmempty), Version = 2, changes = []\<rparr>)"
  by (simp add: ApplyEvent_def NewBaseEvent_def setBalance_def getBalance_def IsNegative_def
      USD_def EUR_def)

text \<open>
  Counterexample to claim C4 as stated: an in-sequence event that carries the identifier
  of another aggregate is applied with success, and the aggregate's identifier then
  differs from that of an event applied to it.
\<close>

theorem apply_accepts_foreign_aggregate_id:
  "fst (ApplyEvent \<lparr>ID = ''acc-1'', Balances = fmempty, Version = 1, changes = []\<rparr>
          (DepositMadeEvent (NewBaseEvent 1 0 ''other'' 2 DepositMadeType) 10 USD)) = None
   \<and> ID (snd (ApplyEvent \<lparr>ID = ''acc-1'', Balances = fmempty, Version = 1, changes = []\<rparr>
          (DepositMadeEvent (NewBaseEvent 1 0 ''other'' 2 DepositMadeType) 10 USD)))
       \<noteq> BaseEvent.AggregateID (GetBase (DepositMadeEvent (NewBaseEvent 1 0 ''other'' 2 DepositMadeType) 10 USD))"
  by (simp add: ApplyEvent_def NewBaseEvent_def setBalance_def getBalance_def)

lemma applySwitch_ID:
  "applySwitch a event = (None, a') \<Longrightarrow>
   ID a' = (case event of AccountCreatedEvent base bs \<Rightarrow> BaseEvent.AggregateID base | _ \<Rightarrow> ID a)"
  by (cases event) (auto simp: setBalance_def Let_def split: if_splits)

lemma applySwitch_error_unchanged:
  "applySwitch a event = (Some err, a') \<Longrightarrow> a' = a"
  by (cases event) (auto simp: setBalance_def Let_def split: if_splits)

lemma ApplyEvent_error_unchanged:
  "ApplyEvent a event = (Some err, a') \<Longrightarrow> a' = a"
  by (auto simp: ApplyEvent_def Let_def split: if_splits prod.splits option.splits
      dest: applySwitch_error_unchanged)

text \<open>
  Claim C4, amended. \<^verbatim>\<open>ApplyEvent\<close> succeeds only when the event's version is the
  aggregate's version plus one; an event of any other version fails with the version
  mismatch and leaves the aggregate (identifier, balances, version) as it was; on success
  the aggregate's version is the event's version, and its identifier is the event's
  aggregate identifier for an \<^verbatim>\<open>AccountCreatedEvent\<close> and unchanged for every other
  event. The event's aggregate identifier is not compared with the aggregate's.
\<close>

theorem apply_version_gate:
  "(fst (ApplyEvent a event) = None \<longrightarrow> BaseEvent.Version (GetBase event) = Account.Version a + 1)
   \<and> (BaseEvent.Version (GetBase event) \<noteq> Account.Version a + 1 \<longrightarrow>
        ApplyEvent a event = (Some ErrVersionMismatch, a))
   \<and> (fst (ApplyEvent a event) = None \<longrightarrow>
        Account.Version (snd (ApplyEvent a event)) = BaseEvent.Version (GetBase event)
        \<and> ID (snd (ApplyEvent a event)) =
            (case event of AccountCreatedEvent base bs \<Rightarrow> BaseEvent.AggregateID base | _ \<Rightarrow> ID a))"
proof (cases "BaseEvent.Version (GetBase event) = Account.Version a + 1")
  case False
  then show ?thesis by (simp add: ApplyEvent_out_of_sequence)
next
  case True
  obtain r a' where sw: "applySwitch a event = (r, a')" by (cases "applySwitch a event")
  show ?thesis
  proof (cases r)
    case None
    with sw True applySwitch_ID [of a event a'] show ?thesis
      by (simp add: ApplyEvent_in_sequence)
  next
    case (Some err)
    with sw True show ?thesis by (simp add: ApplyEvent_in_sequence)
  qed
qed

theorem apply_version_gate_witness:
  "fst (ApplyEvent \<lparr>ID = ''acc-ver'', Balances = fmempty, Version = 1, changes = []\<rparr>
          (DepositMadeEvent (NewBaseEvent 1 0 ''acc-ver'' 2 DepositMadeType) 10 USD)) = None
   \<and> Account.Version (snd (ApplyEvent \<lparr>ID = ''acc-ver'', Balances = fmempty, Version = 1, changes = []\<rparr>
          (DepositMadeEvent (NewBaseEvent 1 0 ''acc-ver'' 2 DepositMadeType) 10 USD))) = 2
   \<and> ID (snd (ApplyEvent \<lparr>ID = ''acc-ver'', Balances = fmempty, Version = 1, changes = []\<rparr>
          (DepositMadeEvent (NewBaseEvent 1 0 ''acc-ver'' 2 DepositMadeType) 10 USD))) = ''acc-ver''
   \<and> ApplyEvent \<lparr>ID = ''acc-ver'', Balances = fmempty, Version = 1, changes = []\<rparr>
          (DepositMadeEvent (NewBaseEvent 1 0 ''acc-ver'' 3 DepositMadeType) 10 USD)
       = (Some ErrVersionMismatch, \<lparr>ID = ''acc-ver'', Balances = fmempty, Version = 1, changes = []\<rparr>)"
proof -
  let ?a = "\<lparr>ID = ''acc-ver'', Balances = fmempty, Version = 1, changes = []\<rparr>"
  let ?ok = "DepositMadeEvent (NewBaseEvent 1 0 ''acc-ver'' 2 DepositMadeType) 10 USD"
  let ?bad = "DepositMadeEvent (NewBaseEvent 1 0 ''acc-ver'' 3 DepositMadeType) 10 USD"
  have ok: "fst (ApplyEvent ?a ?ok) = None"
    by (simp add: ApplyEvent_def NewBaseEvent_def setBalance_def)
  have bad: "BaseEvent.Version (GetBase ?bad) \<noteq> Account.Version ?a + 1"
    by (simp add: NewBaseEvent_def)
  from apply_version_gate [of ?a ?ok] apply_version_gate [of ?a ?bad] ok bad
  show ?thesis by (simp add: NewBaseEvent_def)
qed



section \<open>Balances never go negative\<close>

lemma installBalances_nonneg:
  "\<forall>b \<in> set bs. 0 \<le> Balance.Amount b \<Longrightarrow>
   \<forall>c v. fmlookup m c = Some v \<longrightarrow> 0 \<le> v \<Longrightarrow>
   \<forall>c v. fmlookup (installBalances bs m) c = Some v \<longrightarrow> 0 \<le> v"
proof (induction bs arbitrary: m)
  case Nil
  then show ?case by simp
next
  case (Cons b bs)
  have "\<forall>c v. fmlookup (fmupd (Balance.Currency b) (Balance.Amount b) m) c = Some v \<longrightarrow> 0 \<le> v"
    using Cons.prems by (auto split: if_splits)
  with Cons.IH [of "fmupd (Balance.Currency b) (Balance.Amount b) m"] Cons.prems(1)
  show ?case by simp
qed

lemma collectBalances_nonneg:
  "collectBalances xs acc = Inr bs \<Longrightarrow> \<forall>b \<in> set acc. 0 \<le> Balance.Amount b \<Longrightarrow>
   \<forall>b \<in> set bs. 0 \<le> Balance.Amount b"
  by (induction xs acc rule: collectBalances.induct)
     (auto simp: IsNegative_def split: if_splits)

lemma setBalance_nonneg:
  "balances_nonneg a \<Longrightarrow> 0 \<le> v \<Longrightarrow> balances_nonneg (setBalance c v a)"
  by (auto simp: balances_nonneg_def setBalance_def)

lemma getBalance_nonneg: "balances_nonneg a \<Longrightarrow> 0 \<le> getBalance a c"
  by (auto simp: balances_nonneg_def getBalance_def split: option.splits)

lemma applySwitch_nonneg:
  assumes "balances_nonneg a" and "credit_nonneg event"
  shows "balances_nonneg (snd (applySwitch a event))"
proof (cases event)
  case (AccountCreatedEvent base bs)
  with assms installBalances_nonneg [of bs fmempty] show ?thesis
    by (auto simp: balances_nonneg_def credit_nonneg_def)
next
  case (DepositMadeEvent base amount currency)
  with assms show ?thesis
    by (simp add: credit_nonneg_def Let_def setBalance_nonneg getBalance_nonneg)
next
  case (WithdrawalMadeEvent base amount currency)
  with assms show ?thesis
    by (simp add: Let_def IsNegative_def setBalance_nonneg)
next
  case (MoneyTransferredEvent base t s tg da dc ca cc r)
  with assms show ?thesis
    by (simp add: Let_def IsNegative_def setBalance_nonneg)
next
  case (CurrencyConvertedEvent base fa fc ta tc r)
  with assms show ?thesis
    by (simp add: credit_nonneg_def Let_def IsNegative_def setBalance_nonneg getBalance_nonneg)
next
  case (ExchangeRateUpdatedEvent base p r pr)
  with assms show ?thesis by simp
qed

lemma balances_nonneg_Version [simp]:
  "balances_nonneg (a\<lparr>Version := v\<rparr>) = balances_nonneg a"
  by (simp add: balances_nonneg_def)

lemma balances_nonneg_changes [simp]:
  "balances_nonneg (a\<lparr>changes := es\<rparr>) = balances_nonneg a"
  by (simp add: balances_nonneg_def)

lemma ApplyEvent_nonneg:
  assumes "balances_nonneg a" and "credit_nonneg event"
  shows "balances_nonneg (snd (ApplyEvent a event))"
  using assms applySwitch_nonneg [OF assms]
  by (auto simp: ApplyEvent_def Let_def split: prod.splits option.splits)

lemma handleChange_nonneg:
  assumes "balances_nonneg a" and "credit_nonneg event"
  shows "balances_nonneg (snd (handleChange a event))"
  using ApplyEvent_nonneg [OF assms]
  by (auto simp: handleChange_def split: prod.splits option.splits)

lemma HandleCreateAccount_nonneg:
  "balances_nonneg a \<Longrightarrow> balances_nonneg (snd (HandleCreateAccount eid now a id' bs))"
  by (auto simp: HandleCreateAccount_def credit_nonneg_def split: sum.splits
      intro!: handleChange_nonneg dest: collectBalances_nonneg)

lemma HandleDeposit_nonneg:
  "balances_nonneg a \<Longrightarrow> balances_nonneg (snd (HandleDeposit eid now a amount currency))"
  by (auto simp: HandleDeposit_def credit_nonneg_def IsPositive_def intro!: handleChange_nonneg)

lemma HandleWithdraw_nonneg:
  "balances_nonneg a \<Longrightarrow> balances_nonneg (snd (HandleWithdraw eid now a amount currency))"
  by (auto simp: HandleWithdraw_def credit_nonneg_def Let_def intro!: handleChange_nonneg)

lemma HandleConvertCurrency_nonneg:
  "balances_nonneg a \<Longrightarrow>
   balances_nonneg (snd (HandleConvertCurrency eid now a fromAmount fromCurrency toCurrency rate))"
  by (auto simp: HandleConvertCurrency_def credit_nonneg_def Let_def IsPositive_def
      intro!: handleChange_nonneg)

lemma HandleTransferMoney_nonneg:
  "balances_nonneg a \<Longrightarrow>
   balances_nonneg (snd (HandleTransferMoney eid now a target da dc ca cc rate))"
  by (auto simp: HandleTransferMoney_def credit_nonneg_def Let_def intro!: handleChange_nonneg)

lemma execute_nonneg:
  "balances_nonneg a \<Longrightarrow> balances_nonneg (snd (execute eid now a cmd))"
  by (cases cmd)
     (simp_all add: HandleCreateAccount_nonneg HandleDeposit_nonneg HandleWithdraw_nonneg
        HandleConvertCurrency_nonneg HandleTransferMoney_nonneg)

lemma run_nonneg:
  "balances_nonneg a \<Longrightarrow> balances_nonneg (snd (run a cmds))"
proof (induction cmds arbitrary: a)
  case Nil
  then show ?case by simp
next
  case (Cons c cmds)
  obtain eid now cmd where c: "c = (eid, now, cmd)" by (cases c)
  obtain r a' where ex: "execute eid now a cmd = (r, a')" by (cases "execute eid now a cmd")
  from execute_nonneg [OF Cons.prems, of eid now cmd] ex have "balances_nonneg a'" by simp
  with Cons.IH [of a'] c ex show ?case by (cases r) simp_all
qed

lemma NewAccount_nonneg: "balances_nonneg (NewAccount id')"
  by (simp add: balances_nonneg_def NewAccount_def)

text \<open>
  Claim C2. After any sequence of handler calls (create, deposit, withdraw, convert,
  transfer) on a new aggregate in which no call returns an error, every amount in the
  balances map is at least zero.
\<close>

theorem commands_keep_balances_nonneg:
  "fst (run (NewAccount id') cmds) = None \<Longrightarrow> balances_nonneg (snd (run (NewAccount id') cmds))"
  by (rule run_nonneg [OF NewAccount_nonneg])

theorem commands_keep_balances_nonneg_witness:
  "fst (run (NewAccount ''A'')
     [(1, 10, CreateAccount ''A'' [(USD, 100050 / 100), (EUR, 500)]),
      (2, 11, Deposit 200 USD),
      (3, 12, ConvertCurrency 100 USD EUR (92 / 100)),
      (4, 13, Withdraw 500 EUR),
      (5, 14, TransferMoney ''B'' 75 USD 75 USD 1)]) = None
   \<and> balances_nonneg (snd (run (NewAccount ''A'')
     [(1, 10, CreateAccount ''A'' [(USD, 100050 / 100), (EUR, 500)]),
      (2, 11, Deposit 200 USD),
      (3, 12, ConvertCurrency 100 USD EUR (92 / 100)),
      (4, 13, Withdraw 500 EUR),
      (5, 14, TransferMoney ''B'' 75 USD 75 USD 1)]))
   \<and> fmlookup (Balances (snd (run (NewAccount ''A'')
     [(1, 10, CreateAccount ''A'' [(USD, 100050 / 100), (EUR, 500)]),
      (2, 11, Deposit 200 USD),
      (3, 12, ConvertCurrency 100 USD EUR (92 / 100)),
      (4, 13, Withdraw 500 EUR),
      (5, 14, TransferMoney ''B'' 75 USD 75 USD 1)]))) USD = Some (102550 / 100)"
proof -
  let ?cmds = "[(1, 10, CreateAccount ''A'' [(USD, 100050 / 100), (EUR, 500)]),
      (2, 11, Deposit 200 USD),
      (3, 12, ConvertCurrency 100 USD EUR (92 / 100)),
      (4, 13, Withdraw 500 EUR),
      (5, 14, TransferMoney ''B'' 75 USD 75 USD 1)]"
  have r: "fst (run (NewAccount ''A'') ?cmds) = None"
    by (simp add: NewAccount_def HandleCreateAccount_def HandleDeposit_def HandleWithdraw_def
        HandleConvertCurrency_def HandleTransferMoney_def handleChange_def ApplyEvent_def
        NewBaseEvent_def IsPositive_def IsNegative_def getBalance_def setBalance_def
        GreaterThanOrEqual_def USD_def EUR_def Let_def)
  have b: "fmlookup (Balances (snd (run (NewAccount ''A'') ?cmds))) USD = Some (102550 / 100)"
    by (simp add: NewAccount_def HandleCreateAccount_def HandleDeposit_def HandleWithdraw_def
        HandleConvertCurrency_def HandleTransferMoney_def handleChange_def ApplyEvent_def
        NewBaseEvent_def IsPositive_def IsNegative_def getBalance_def setBalance_def
        GreaterThanOrEqual_def USD_def EUR_def Let_def)
  from r b commands_keep_balances_nonneg [OF r] show ?thesis by simp
qed

section \<open>Commands whose preconditions fail\<close>

lemma rejectedI: "rejected (Some err, a) a"
  by (simp add: rejected_def)

lemma collectBalances_error:
  "\<not> list_all (\<lambda>(cur, amt). 0 \<le> amt) xs \<Longrightarrow> collectBalances xs acc = Inl DomainError"
  by (induction xs acc rule: collectBalances.induct) (auto simp: IsNegative_def)

lemma version_zero: "0 \<le> sint (v :: go_int) \<Longrightarrow> \<not> 1 \<le> sint v \<Longrightarrow> v = 0"
proof -
  assume "0 \<le> sint v" "\<not> 1 \<le> sint v"
  then have "sint v = 0" by simp
  then show "v = 0" by (simp only: signed_eq_0_iff)
qed

lemma version_pos: "0 \<le> sint (v :: go_int) \<Longrightarrow> v \<noteq> 0 \<Longrightarrow> 0 < sint v"
  using signed_eq_0_iff [of v, where ?'a = int] by (cases "sint v = 0") auto

lemma balanceOf_getBalance: "balanceOf a c = getBalance a c"
  by (simp add: balanceOf_def getBalance_def)

lemma create_rejected:
  "0 \<le> sint (Account.Version a) \<Longrightarrow> \<not> spec_pre_create a id' bs \<Longrightarrow>
   rejected (HandleCreateAccount eid now a id' bs) a"
  by (auto simp: spec_pre_create_def HandleCreateAccount_def rejectedI collectBalances_error
      dest: version_pos)

lemma deposit_rejected:
  "0 \<le> sint (Account.Version a) \<Longrightarrow> \<not> spec_pre_deposit a amount \<Longrightarrow>
   rejected (HandleDeposit eid now a amount currency) a"
  by (auto simp: spec_pre_deposit_def HandleDeposit_def rejectedI IsPositive_def dest: version_zero)

lemma withdraw_rejected:
  "0 \<le> sint (Account.Version a) \<Longrightarrow> \<not> spec_pre_withdraw a amount currency \<Longrightarrow>
   rejected (HandleWithdraw eid now a amount currency) a"
  by (auto simp: spec_pre_withdraw_def HandleWithdraw_def rejectedI IsPositive_def Let_def
      GreaterThanOrEqual_def balanceOf_getBalance dest: version_zero)

lemma convert_rejected:
  "0 \<le> sint (Account.Version a) \<Longrightarrow> \<not> spec_pre_convert a fromAmount fromCurrency toCurrency rate \<Longrightarrow>
   rejected (HandleConvertCurrency eid now a fromAmount fromCurrency toCurrency rate) a"
  by (auto simp: spec_pre_convert_def HandleConvertCurrency_def rejectedI IsPositive_def Let_def
      GreaterThanOrEqual_def balanceOf_getBalance dest: version_zero)

lemma transfer_rejected:
  "0 \<le> sint (Account.Version a) \<Longrightarrow>
   \<not> spec_pre_transfer_any_rate a target da dc ca cc rate \<Longrightarrow>
   rejected (HandleTransferMoney eid now a target da dc ca cc rate) a"
  by (auto simp: spec_pre_transfer_any_rate_def spec_pre_transfer_common_def HandleTransferMoney_def
      rejectedI IsPositive_def Let_def GreaterThanOrEqual_def balanceOf_getBalance
      dest: version_zero split: if_splits)

text \<open>
  Claim C5, amended. On an aggregate whose version is not negative, a handler called with
  a precondition that does not hold returns an error and leaves identifier, balances,
  version and the pending events as they were. The preconditions are those of the
  specification, except that a same-currency transfer is not required to carry rate 1:
  the handler replaces another rate by 1 and accepts the transfer.
\<close>

theorem failed_precondition_leaves_state:
  assumes "0 \<le> sint (Account.Version a)"
  shows "(\<not> spec_pre_create a id' initialBalances \<longrightarrow>
            rejected (HandleCreateAccount eid now a id' initialBalances) a)
    \<and> (\<not> spec_pre_deposit a amount \<longrightarrow> rejected (HandleDeposit eid now a amount currency) a)
    \<and> (\<not> spec_pre_withdraw a amount currency \<longrightarrow> rejected (HandleWithdraw eid now a amount currency) a)
    \<and> (\<not> spec_pre_convert a amount currency toCurrency rate \<longrightarrow>
            rejected (HandleConvertCurrency eid now a amount currency toCurrency rate) a)
    \<and> (\<not> spec_pre_transfer_any_rate a target amount currency creditAmount toCurrency rate \<longrightarrow>
            rejected (HandleTransferMoney eid now a target amount currency creditAmount toCurrency rate) a)"
  using assms
  by (simp add: create_rejected deposit_rejected withdraw_rejected convert_rejected
      transfer_rejected)

text \<open>
  Counterexample to claim C5 as stated: a same-currency transfer with rate 2 violates the
  specification's precondition \<open>rate = 1\<close>, yet the handler returns no error, debits the
  account and records an event that carries rate 1.
\<close>

theorem same_currency_rate_not_enforced:
  "\<not> spec_pre_transfer
       \<lparr>ID = ''acc-source'', Balances = fmupd USD 200 fmempty, Version = 1, changes = []\<rparr>
       ''acc-target'' 50 USD 50 USD 2
   \<and> HandleTransferMoney 5 0
       \<lparr>ID = ''acc-source'', Balances = fmupd USD 200 fmempty, Version = 1, changes = []\<rparr>
       ''acc-target'' 50 USD 50 USD 2
     = (None, \<lparr>ID = ''acc-source'', Balances = fmupd USD 150 (fmupd USD 200 fmempty), Version = 2,
               changes = [MoneyTransferredEvent
                            (NewBaseEvent 5 0 ''acc-source'' 2 MoneyTransferredType)
                            [] [] ''acc-target'' 50 USD 50 USD 1]\<rparr>)"
  by (simp add: spec_pre_transfer_def HandleTransferMoney_def IsPositive_def getBalance_def
      GreaterThanOrEqual_def handleChange_def ApplyEvent_def NewBaseEvent_def IsNegative_def
      setBalance_def Let_def)

theorem failed_precondition_leaves_state_witness:
  "rejected (HandleCreateAccount 1 0
        \<lparr>ID = ''B'', Balances = fmupd GBP 800 fmempty, Version = 1, changes = []\<rparr> ''B'' [])
        \<lparr>ID = ''B'', Balances = fmupd GBP 800 fmempty, Version = 1, changes = []\<rparr>
   \<and> rejected (HandleDeposit 1 0
        \<lparr>ID = ''B'', Balances = fmupd GBP 800 fmempty, Version = 1, changes = []\<rparr> 0 GBP)
        \<lparr>ID = ''B'', Balances = fmupd GBP 800 fmempty, Version = 1, changes = []\<rparr>
   \<and> rejected (HandleWithdraw 1 0
        \<lparr>ID = ''B'', Balances = fmupd GBP 800 fmempty, Version = 1, changes = []\<rparr> 1000 GBP)
        \<lparr>ID = ''B'', Balances = fmupd GBP 800 fmempty, Version = 1, changes = []\<rparr>
   \<and> rejected (HandleConvertCurrency 1 0
        \<lparr>ID = ''B'', Balances = fmupd GBP 800 fmempty, Version = 1, changes = []\<rparr> 1000 GBP GBP 2)
        \<lparr>ID = ''B'', Balances = fmupd GBP 800 fmempty, Version = 1, changes = []\<rparr>
   \<and> rejected (HandleTransferMoney 1 0
        \<lparr>ID = ''B'', Balances = fmupd GBP 800 fmempty, Version = 1, changes = []\<rparr>
        ''B'' 1000 GBP 1 GBP 2)
        \<lparr>ID = ''B'', Balances = fmupd GBP 800 fmempty, Version = 1, changes = []\<rparr>"
proof -
  let ?a = "\<lparr>ID = ''B'', Balances = fmupd GBP 800 fmempty, Version = 1, changes = []\<rparr>"
  have wf: "0 \<le> sint (Account.Version ?a)" by simp
  have p1: "\<not> spec_pre_create ?a ''B'' []" by (simp add: spec_pre_create_def)
  have p2: "\<not> spec_pre_deposit ?a 0" by (simp add: spec_pre_deposit_def)
  have p3: "\<not> spec_pre_withdraw ?a 1000 GBP" by (simp add: spec_pre_withdraw_def balanceOf_def)
  have p4: "\<not> spec_pre_convert ?a 1000 GBP GBP 2" by (simp add: spec_pre_convert_def)
  have p5: "\<not> spec_pre_transfer_any_rate ?a ''B'' 1000 GBP 1 GBP 2"
    by (simp add: spec_pre_transfer_any_rate_def)
  from p1 p2 p3 p4 p5
    failed_precondition_leaves_state [OF wf, where id' = "''B''" and initialBalances = "[]"
      and amount = 1000 and currency = GBP and toCurrency = GBP and rate = 2
      and target = "''B''" and creditAmount = 1 and eid = 1 and now = 0]
    failed_precondition_leaves_state [OF wf, where amount = 0 and currency = GBP
      and eid = 1 and now = 0]
  show ?thesis by blast
qed

section \<open>Signed 64-bit arithmetic without overflow\<close>

lemma sint_of_nat_small: "n < 2 ^ 63 \<Longrightarrow> sint (of_nat n :: go_int) = int n"
proof -
  assume "n < 2 ^ 63"
  then have "int n < 2 ^ 63" by (metis of_nat_less_iff of_nat_numeral of_nat_power)
  moreover have "- (2 ^ 63) \<le> int n" by simp
  ultimately have "signed_take_bit 63 (int n) = int n"
    by (rule signed_take_bit_int_eq_self [rotated])
  moreover have "sint (of_nat n :: go_int) = signed_take_bit 63 (int n)"
    using sint_sbintrunc' [of "int n", where ?'a = 64] by simp
  ultimately show ?thesis by simp
qed

lemma sint_add_small:
  "- (2 ^ 63) \<le> sint (a :: go_int) + sint b \<Longrightarrow> sint a + sint b < 2 ^ 63 \<Longrightarrow>
   sint (a + b) = sint a + sint b"
  by (simp add: sint_word_add signed_take_bit_int_eq_self)

section \<open>The event store\<close>

lemma contiguous_from_Nil [simp]: "contiguous_from v []"
  by (simp add: contiguous_from_def)

lemma contiguous_from_Cons:
  "contiguous_from v (event # events) \<longleftrightarrow>
   BaseEvent.Version (GetBase event) = v + 1 \<and> contiguous_from (v + 1) events"
proof -
  have "[1 ..< Suc (Suc (length events))] = 1 # map Suc [1 ..< Suc (length events)]"
    by (simp add: map_Suc_upt upt_conv_Cons del: upt_Suc)
  then have "map (\<lambda>i. v + of_nat i) [1 ..< Suc (length (event # events))]
      = (v + 1) # map (\<lambda>i. (v + 1) + of_nat i) [1 ..< Suc (length events)]"
    by (simp add: comp_def add.assoc del: upt_Suc)
  then show ?thesis
    by (simp add: contiguous_from_def del: upt_Suc)
qed

lemma validateBatch_None_iff:
  "validateBatch aggregateID v events = None \<longleftrightarrow>
   contiguous_from v events \<and> (\<forall>event \<in> set events. BaseEvent.AggregateID (GetBase event) = aggregateID)"
  by (induction events arbitrary: v) (auto simp: contiguous_from_Cons Let_def)

lemma validateBatch_errors:
  "validateBatch aggregateID v events = Some err \<Longrightarrow> err = ErrSequence \<or> err = ErrAggregateIDMismatch"
  by (induction events arbitrary: v) (auto simp: Let_def split: if_splits)

text \<open>
  Claim C3, amended. An empty batch returns success and leaves the store unchanged,
  whatever the expected version. For a batch that is not empty: if the stored version of
  the aggregate (the version of its last stored event, 0 for an unknown or empty stream)
  differs from the expected version, the call fails with the optimistic-lock error and
  the store is unchanged; otherwise, if the versions of the batch are not exactly
  \<open>expectedVersion + 1, expectedVersion + 2, \<dots>\<close> or some event carries another aggregate
  identifier, the call fails with the sequence or the identifier error and the store is
  unchanged.
\<close>

theorem append_contract:
  "(newEvents = [] \<longrightarrow> SaveEvents s aggregateID expectedVersion newEvents = (None, s))
   \<and> (newEvents \<noteq> [] \<and> currentVersion s aggregateID \<noteq> expectedVersion \<longrightarrow>
        SaveEvents s aggregateID expectedVersion newEvents = (Some ErrOptimisticLock, s))
   \<and> (newEvents \<noteq> [] \<and> currentVersion s aggregateID = expectedVersion
        \<and> \<not> (contiguous_from expectedVersion newEvents
              \<and> (\<forall>event \<in> set newEvents. BaseEvent.AggregateID (GetBase event) = aggregateID)) \<longrightarrow>
        (fst (SaveEvents s aggregateID expectedVersion newEvents) = Some ErrSequence
         \<or> fst (SaveEvents s aggregateID expectedVersion newEvents) = Some ErrAggregateIDMismatch)
        \<and> snd (SaveEvents s aggregateID expectedVersion newEvents) = s)"
proof (intro conjI impI)
  assume "newEvents = []"
  then show "SaveEvents s aggregateID expectedVersion newEvents = (None, s)"
    by (simp add: SaveEvents_def)
next
  assume "newEvents \<noteq> [] \<and> currentVersion s aggregateID \<noteq> expectedVersion"
  then show "SaveEvents s aggregateID expectedVersion newEvents = (Some ErrOptimisticLock, s)"
    by (simp add: SaveEvents_def)
next
  assume a: "newEvents \<noteq> [] \<and> currentVersion s aggregateID = expectedVersion
        \<and> \<not> (contiguous_from expectedVersion newEvents
              \<and> (\<forall>event \<in> set newEvents. BaseEvent.AggregateID (GetBase event) = aggregateID))"
  then have "validateBatch aggregateID expectedVersion newEvents \<noteq> None"
    by (simp only: validateBatch_None_iff not_False_eq_True)
  then obtain err where v: "validateBatch aggregateID expectedVersion newEvents = Some err"
    by auto
  from validateBatch_errors [OF v] a v
  show "fst (SaveEvents s aggregateID expectedVersion newEvents) = Some ErrSequence
         \<or> fst (SaveEvents s aggregateID expectedVersion newEvents) = Some ErrAggregateIDMismatch"
    by (auto simp: SaveEvents_def)
  from a v show "snd (SaveEvents s aggregateID expectedVersion newEvents) = s"
    by (simp add: SaveEvents_def)
qed

text \<open>
  Counterexample to claim C3 as stated: with an empty batch the call returns success
  although the stored version (0) differs from the expected version (5).
\<close>

theorem empty_batch_skips_version_check:
  "currentVersion NewInMemoryEventStore ''acc-1'' \<noteq> 5
   \<and> SaveEvents NewInMemoryEventStore ''acc-1'' 5 [] = (None, NewInMemoryEventStore)"
  by (simp add: currentVersion_def NewInMemoryEventStore_def SaveEvents_def)

lemma SaveEvents_valid:
  "newEvents \<noteq> [] \<Longrightarrow> currentVersion s aggregateID = expectedVersion \<Longrightarrow>
   contiguous_from expectedVersion newEvents \<Longrightarrow>
   \<forall>event \<in> set newEvents. BaseEvent.AggregateID (GetBase event) = aggregateID \<Longrightarrow>
   SaveEvents s aggregateID expectedVersion newEvents =
     (None, s\<lparr>streams := (streams s)(aggregateID \<mapsto> GetEvents s aggregateID @ newEvents)\<rparr>)"
  using validateBatch_None_iff [of aggregateID expectedVersion newEvents]
  by (simp add: SaveEvents_def GetEvents_def)

lemma SaveEvents_success_single:
  assumes "SaveEvents s aggregateID expectedVersion [event] = (None, s')"
  shows "currentVersion s' aggregateID = expectedVersion + 1"
  using assms
  by (auto simp: SaveEvents_def currentVersion_def Let_def split: if_splits option.splits)

text \<open>
  Two appends with the same expected version, one after the other: once the first has
  stored its single event, the second one fails with the optimistic-lock error,
  whatever its batch (if not empty), and stores nothing.
\<close>

lemma second_append_conflicts:
  assumes "SaveEvents s aggregateID expectedVersion [event1] = (None, s')"
    and "batch2 \<noteq> []"
  shows "SaveEvents s' aggregateID expectedVersion batch2 = (Some ErrOptimisticLock, s')"
proof -
  have "currentVersion s' aggregateID = expectedVersion + 1"
    by (rule SaveEvents_success_single [OF assms(1)])
  then have "currentVersion s' aggregateID \<noteq> expectedVersion" by simp
  with assms(2) show ?thesis by (simp add: SaveEvents_def)
qed

theorem append_contract_witness:
  "SaveEvents NewInMemoryEventStore ''agg-save-1'' 0 [] = (None, NewInMemoryEventStore)
   \<and> SaveEvents \<lparr>streams = [''agg-save-1'' \<mapsto>
          [DepositMadeEvent (NewBaseEvent 1 0 ''agg-save-1'' 1 DepositMadeType) 1 USD,
           DepositMadeEvent (NewBaseEvent 2 0 ''agg-save-1'' 2 DepositMadeType) 1 USD]]\<rparr>
        ''agg-save-1'' 1 [DepositMadeEvent (NewBaseEvent 3 0 ''agg-save-1'' 3 DepositMadeType) 1 USD]
      = (Some ErrOptimisticLock, \<lparr>streams = [''agg-save-1'' \<mapsto>
          [DepositMadeEvent (NewBaseEvent 1 0 ''agg-save-1'' 1 DepositMadeType) 1 USD,
           DepositMadeEvent (NewBaseEvent 2 0 ''agg-save-1'' 2 DepositMadeType) 1 USD]]\<rparr>)
   \<and> fst (SaveEvents NewInMemoryEventStore ''agg-seq-err'' 0
        [DepositMadeEvent (NewBaseEvent 1 0 ''agg-seq-err'' 1 DepositMadeType) 1 USD,
         DepositMadeEvent (NewBaseEvent 2 0 ''agg-seq-err'' 3 DepositMadeType) 1 USD]) \<noteq> None
   \<and> snd (SaveEvents NewInMemoryEventStore ''agg-seq-err'' 0
        [DepositMadeEvent (NewBaseEvent 1 0 ''agg-seq-err'' 1 DepositMadeType) 1 USD,
         DepositMadeEvent (NewBaseEvent 2 0 ''agg-seq-err'' 3 DepositMadeType) 1 USD])
      = NewInMemoryEventStore"
proof -
  let ?s2 = "\<lparr>streams = [''agg-save-1'' \<mapsto>
          [DepositMadeEvent (NewBaseEvent 1 0 ''agg-save-1'' 1 DepositMadeType) 1 USD,
           DepositMadeEvent (NewBaseEvent 2 0 ''agg-save-1'' 2 DepositMadeType) 1 USD]]\<rparr>"
  let ?gap = "[DepositMadeEvent (NewBaseEvent 1 0 ''agg-seq-err'' 1 DepositMadeType) 1 USD,
         DepositMadeEvent (NewBaseEvent 2 0 ''agg-seq-err'' 3 DepositMadeType) 1 USD]"
  have h2: "currentVersion ?s2 ''agg-save-1'' \<noteq> 1"
    by (simp add: currentVersion_def NewBaseEvent_def)
  have h3: "currentVersion NewInMemoryEventStore ''agg-seq-err'' = 0"
    by (simp add: currentVersion_def NewInMemoryEventStore_def)
  have h4: "\<not> contiguous_from 0 ?gap"
    by (simp add: contiguous_from_def NewBaseEvent_def)
  from h2 h3 h4
    append_contract [of "[]" NewInMemoryEventStore "''agg-save-1''" 0]
    append_contract [of "[DepositMadeEvent (NewBaseEvent 3 0 ''agg-save-1'' 3 DepositMadeType) 1 USD]"
        ?s2 "''agg-save-1''" 1]
    append_contract [of ?gap NewInMemoryEventStore "''agg-seq-err''" 0]
  show ?thesis by auto
qed

lemma contiguous_from_append:
  "contiguous_from v (xs @ ys) \<longleftrightarrow>
   contiguous_from v xs \<and> contiguous_from (v + of_nat (length xs)) ys"
  by (induction xs arbitrary: v) (auto simp: contiguous_from_Cons add.assoc add.commute)

lemma contiguous_last:
  "contiguous_from v stream \<Longrightarrow> stream \<noteq> [] \<Longrightarrow>
   BaseEvent.Version (GetBase (last stream)) = v + of_nat (length stream)"
proof (induction stream arbitrary: v)
  case Nil
  then show ?case by simp
next
  case (Cons e es)
  show ?case
  proof (cases "es = []")
    case True
    with Cons.prems show ?thesis by (simp add: contiguous_from_Cons)
  next
    case False
    with Cons.prems Cons.IH [of "v + 1"] show ?thesis
      by (simp add: contiguous_from_Cons add.assoc add.commute)
  qed
qed

lemma currentVersion_contiguous:
  "written_by_append s \<Longrightarrow> currentVersion s aggregateID = of_nat (length (GetEvents s aggregateID))"
  using contiguous_last [of 0]
  by (auto simp: written_by_append_def currentVersion_def GetEvents_def split: option.splits)

lemma contiguous_nth:
  "contiguous_from v stream \<Longrightarrow> i < length stream \<Longrightarrow>
   BaseEvent.Version (GetBase (stream ! i)) = v + of_nat (Suc i)"
proof -
  assume c: "contiguous_from v stream" and i: "i < length stream"
  have "BaseEvent.Version (GetBase (stream ! i))
      = map (\<lambda>event. BaseEvent.Version (GetBase event)) stream ! i"
    using i by simp
  also have "\<dots> = map (\<lambda>i. v + of_nat i) [1 ..< Suc (length stream)] ! i"
    using c by (simp only: contiguous_from_def)
  also have "\<dots> = v + of_nat (Suc i)"
    using i by (simp del: upt_Suc of_nat_Suc)
  finally show ?thesis .
qed

text \<open>
  In a store that only \<^verbatim>\<open>SaveEvents\<close> wrote, the version of the last stored event is the
  highest version of the stream.
\<close>

lemma currentVersion_highest:
  assumes w: "written_by_append s" and len: "length (GetEvents s aggregateID) < 2 ^ 63"
    and e: "event \<in> set (GetEvents s aggregateID)"
  shows "sint (BaseEvent.Version (GetBase event)) \<le> sint (currentVersion s aggregateID)"
proof -
  let ?stream = "GetEvents s aggregateID"
  from e obtain i where i: "i < length ?stream" and ev: "event = ?stream ! i"
    by (auto simp: in_set_conv_nth)
  from e have "streams s aggregateID = Some ?stream"
    by (cases "streams s aggregateID") (simp_all add: GetEvents_def)
  with w have c: "contiguous_from 0 ?stream" by (auto simp: written_by_append_def)
  have v: "BaseEvent.Version (GetBase event) = of_nat (Suc i)"
    using contiguous_nth [OF c i] ev by simp
  have "Suc i < 2 ^ 63" using i len by simp
  then have "sint (of_nat (Suc i) :: go_int) = int (Suc i)" by (rule sint_of_nat_small)
  moreover have "sint (of_nat (length ?stream) :: go_int) = int (length ?stream)"
    by (rule sint_of_nat_small [OF len])
  ultimately show ?thesis
    using i v currentVersion_contiguous [OF w, of aggregateID] by simp
qed

lemma SaveEvents_written_by_append:
  assumes w: "written_by_append s"
  shows "written_by_append (snd (SaveEvents s aggregateID expectedVersion newEvents))"
proof (cases "fst (SaveEvents s aggregateID expectedVersion newEvents) = None \<and> newEvents \<noteq> []")
  case False
  then have "snd (SaveEvents s aggregateID expectedVersion newEvents) = s"
    by (auto simp: SaveEvents_def split: option.splits if_splits)
  with w show ?thesis by simp
next
  case True
  then have cur: "currentVersion s aggregateID = expectedVersion"
    and val: "validateBatch aggregateID expectedVersion newEvents = None"
    by (auto simp: SaveEvents_def split: option.splits if_splits)
  from val have cb: "contiguous_from expectedVersion newEvents"
    by (simp add: validateBatch_None_iff)
  have old: "contiguous_from 0 (GetEvents s aggregateID)"
    using w by (auto simp: written_by_append_def GetEvents_def split: option.splits)
  have "contiguous_from 0 (GetEvents s aggregateID @ newEvents)"
    using old cb cur currentVersion_contiguous [OF w, of aggregateID]
    by (simp add: contiguous_from_append)
  moreover have "snd (SaveEvents s aggregateID expectedVersion newEvents)
      = s\<lparr>streams := (streams s)(aggregateID \<mapsto> GetEvents s aggregateID @ newEvents)\<rparr>"
    using True cur val by (simp add: SaveEvents_def GetEvents_def)
  ultimately show ?thesis
    using w by (auto simp: written_by_append_def)
qed

lemma NewInMemoryEventStore_written_by_append: "written_by_append NewInMemoryEventStore"
  by (simp add: written_by_append_def NewInMemoryEventStore_def)

section \<open>The history query\<close>

lemma slice_window:
  assumes "0 \<le> sint lo" and "sint lo \<le> sint hi" and "sint hi \<le> int (length xs)"
  shows "slice xs lo hi = Inr (take (nat (sint hi - sint lo)) (drop (nat (sint lo)) xs))"
  using assms by (simp add: slice_def nat_diff_distrib)

text \<open>
  The window the query returns when \<open>skip + limit\<close> does not leave the range of \<^verbatim>\<open>int\<close>:
  everything from \<open>skip\<close> on for a limit that is not positive, else the next \<open>limit\<close>
  events.
\<close>

lemma history_window:
  assumes h: "GetEvents (eventStore s) (AccountID q) = history"
    and ne: "history \<noteq> []"
    and len: "length history < 2 ^ 63"
    and skip: "0 \<le> sint (Skip q)"
    and sum: "sint (Skip q) + sint (Limit q) < 2 ^ 63"
  shows "GetTransactionHistory s q =
     Inr (if sint (Limit q) \<le> 0 then drop (nat (sint (Skip q))) history
          else take (nat (sint (Limit q))) (drop (nat (sint (Skip q))) history))"
proof -
  let ?total = "of_nat (length history) :: go_int"
  have total: "sint ?total = int (length history)" by (rule sint_of_nat_small [OF len])
  have lo: "- (2 ^ 63) \<le> sint (Limit q)" using sint_ge [of "Limit q"] by simp
  show ?thesis
  proof (cases "sint ?total \<le> sint (Skip q)")
    case True
    with h ne skip total show ?thesis
      by (simp add: GetTransactionHistory_def Let_def)
  next
    case past: False
    show ?thesis
    proof (cases "sint (Limit q) \<le> 0")
      case True
      have "slice history (Skip q) ?total
          = Inr (take (nat (sint ?total - sint (Skip q))) (drop (nat (sint (Skip q))) history))"
        using skip past total by (intro slice_window) simp_all
      with h ne skip past True total show ?thesis
        by (simp add: GetTransactionHistory_def Let_def)
    next
      case False
      have e: "sint (Skip q + Limit q) = sint (Skip q) + sint (Limit q)"
        using skip False sum by (intro sint_add_small) simp_all
      show ?thesis
      proof (cases "sint ?total < sint (Skip q + Limit q)")
        case True
        have "slice history (Skip q) ?total
            = Inr (take (nat (sint ?total - sint (Skip q))) (drop (nat (sint (Skip q))) history))"
          using skip past total by (intro slice_window) simp_all
        with h ne skip past False True total e show ?thesis
          by (simp add: GetTransactionHistory_def Let_def)
      next
        case inside: False
        have "slice history (Skip q) (Skip q + Limit q)
            = Inr (take (nat (sint (Skip q + Limit q) - sint (Skip q)))
                     (drop (nat (sint (Skip q))) history))"
          using skip False inside total e by (intro slice_window) simp_all
        with h ne skip past False inside total e show ?thesis
          by (simp add: GetTransactionHistory_def Let_def)
      qed
    qed
  qed
qed

text \<open>
  Claim C8. The claim: on a stream that is not empty the query returns the events
  \<open>[skip, skip + limit)\<close> for every \<open>skip \<ge> 0\<close> and every limit. It fails where
  \<^verbatim>\<open>start + query.Limit\<close> overflows: with three stored events, \<open>skip = 1\<close> and
  \<open>limit = 9223372036854775807\<close> the sum wraps to the least \<^verbatim>\<open>int\<close>, the clamp to
  \<^verbatim>\<open>totalEvents\<close> does not fire, and the slice expression \<^verbatim>\<open>history[1:end]\<close> panics,
  where the claim says the last two events are returned.
\<close>

theorem history_limit_overflow:
  "GetEvents (eventStore histService) ''acc-hist-1'' =
     [AccountCreatedEvent (NewBaseEvent 1 0 ''acc-hist-1'' 1 AccountCreatedType) [Balance USD 10],
      DepositMadeEvent (NewBaseEvent 2 0 ''acc-hist-1'' 2 DepositMadeType) 5 USD,
      WithdrawalMadeEvent (NewBaseEvent 3 0 ''acc-hist-1'' 3 WithdrawalMadeType) 2 USD]
   \<and> GetTransactionHistory histService
       \<lparr>AccountID = ''acc-hist-1'', Limit = 9223372036854775807, Skip = 1\<rparr> = Inl PanicSliceBounds"
  by (simp add: GetTransactionHistory_def histService_def GetEvents_def slice_def Let_def)

section \<open>Snapshot round trip\<close>









end
